theory Spec2Isabelle
  imports Main "HOL-Library.Char_ord" "HOL-Library.List_Lexorder"
begin

section \<open>Python values, errors and list operations\<close>

text \<open>
  The exceptions the modelled code can raise. Every raise of the source is a branch of the
  model that returns \<open>Inl\<close> of one of these; \<open>Inr\<close> is a normal return.
\<close>

datatype py_error =
  IndexError | ValueError | KeyError | TypeError | RuntimeError | AssertionError | UnboundLocalError

definition bind_err :: "py_error + 'a \<Rightarrow> ('a \<Rightarrow> py_error + 'b) \<Rightarrow> py_error + 'b" where
  "bind_err m f = (case m of Inl e \<Rightarrow> Inl e | Inr a \<Rightarrow> f a)"

text \<open>
  Subscripting of a Python list and of a torch tensor along one dimension: an index
  below zero counts from the end, an index out of range raises IndexError.
\<close>

definition py_get :: "'a list \<Rightarrow> int \<Rightarrow> py_error + 'a" where
  "py_get xs i =
     (if 0 \<le> i \<and> i < int (length xs) then Inr (xs ! nat i)
      else if i < 0 \<and> - int (length xs) \<le> i then Inr (xs ! nat (int (length xs) + i))
      else Inl IndexError)"

text \<open>\<open>list.index\<close>: the position of the first equal element, ValueError when there is none.\<close>

fun list_index :: "'a list \<Rightarrow> 'a \<Rightarrow> py_error + int" where
  "list_index [] y = Inl ValueError"
| "list_index (x # xs) y =
     (if x = y then Inr 0
      else (case list_index xs y of Inl e \<Rightarrow> Inl e | Inr i \<Rightarrow> Inr (i + 1)))"

text \<open>A dict is an association list in insertion order; a missing key raises KeyError.\<close>

definition dict_get :: "('k \<times> 'v) list \<Rightarrow> 'k option \<Rightarrow> py_error + 'v" where
  "dict_get d k =
     (case k of None \<Rightarrow> Inl KeyError
      | Some k' \<Rightarrow> (case map_of d k' of None \<Rightarrow> Inl KeyError | Some v \<Rightarrow> Inr v))"

text \<open>\<open>numpy.cumsum\<close> on a list of integers.\<close>

fun cumsum_from :: "int \<Rightarrow> int list \<Rightarrow> int list" where
  "cumsum_from acc [] = []"
| "cumsum_from acc (x # xs) = (acc + x) # cumsum_from (acc + x) xs"

definition cumsum :: "int list \<Rightarrow> int list" where
  "cumsum xs = cumsum_from 0 xs"

text \<open>
  \<open>torch.Tensor.argmax\<close> of a one-dimensional integer tensor, called without a
  dimension: the position of the first maximal entry. On a tensor with no element the call
  fails the index check of the reduction, an IndexError in the torch releases that have the
  \<open>rounding_mode\<close> argument the source uses.
\<close>

fun argmax_scan :: "int list \<Rightarrow> nat \<Rightarrow> nat \<Rightarrow> int \<Rightarrow> nat" where
  "argmax_scan [] i best bv = best"
| "argmax_scan (x # xs) i best bv =
     (if bv < x then argmax_scan xs (Suc i) i x else argmax_scan xs (Suc i) best bv)"

definition argmax :: "int list \<Rightarrow> py_error + int" where
  "argmax xs = (case xs of [] \<Rightarrow> Inl IndexError | x # rest \<Rightarrow> Inr (int (argmax_scan rest 1 0 x)))"

section \<open>Attribute values, actions and tensors\<close>

text \<open>
  The values an attribute can take: element symbols, RDKit's chirality tags, integers
  (formal charge, explicit hydrogens), booleans and RDKit's bond types. Values are compared
  within their own type.
\<close>

datatype ChiralType = CHI_UNSPECIFIED | CHI_TETRAHEDRAL_CW | CHI_TETRAHEDRAL_CCW | CHI_OTHER

datatype BondType = UNSPECIFIED | SINGLE | DOUBLE | TRIPLE | QUADRUPLE | AROMATIC | DATIVE

datatype pyval = VStr string | VChi ChiralType | VInt int | VBool bool | VBond BondType

text \<open>
  Modelled from the spec: \<open>GraphActionType\<close> and \<open>GraphAction\<close> are declared in
  graph_building_env.py. An action is one of the closed set Stop, AddNode, SetNodeAttr, AddEdge,
  SetEdgeAttr and carries a subset of source node, target node, attribute name and attribute
  value; a field that is not given is \<open>None\<close>.
\<close>

datatype GraphActionType = Stop | AddNode | SetNodeAttr | AddEdge | SetEdgeAttr

record GraphAction =
  action :: GraphActionType
  source :: "int option"
  target :: "int option"
  attr :: "string option"
  value' :: "pyval option"

definition mk_GraphAction ::
  "GraphActionType \<Rightarrow> int option \<Rightarrow> int option \<Rightarrow> string option \<Rightarrow> pyval option \<Rightarrow> GraphAction" where
  "mk_GraphAction t s tg a v = \<lparr>action = t, source = s, target = tg, attr = a, value' = v\<rparr>"

text \<open>
  The \<open>torch_geometric\<close> Data instance. The node and edge feature matrices hold only the
  entries 0 and 1; the two index tensors of shape (2, N) are kept as the list of their N
  columns.
\<close>

record Data =
  x :: "int list list"
  edge_index :: "(int \<times> int) list"
  edge_attr :: "int list list"
  non_edge_index :: "(int \<times> int) list"

section \<open>The context and its tables\<close>

record MolBuildingEnvContext =
  atom_attr_values :: "(string \<times> pyval list) list"
  atom_attr_defaults :: "(string \<times> pyval) list"
  atom_attr_size :: int
  atom_attrs :: "string list"
  atom_attr_slice :: "int list"
  atom_attr_logit_slice :: "(string \<times> int) list"
  atom_attr_logit_map :: "(string \<times> pyval) list"
  bond_attr_values :: "(string \<times> pyval list) list"
  bond_attr_defaults :: "(string \<times> pyval) list"
  bond_attr_size :: int
  bond_attrs :: "string list"
  bond_attr_slice :: "int list"
  bond_attr_logit_slice :: "(string \<times> int) list"
  bond_attr_logit_map :: "(string \<times> pyval) list"
  num_new_node_values :: int
  num_node_attr_logits :: int
  num_node_dim :: int
  num_edge_attr_logits :: int
  num_edge_dim :: int
  num_cond_dim :: int
  action_type_order :: "GraphActionType list"

text \<open>\<open>{k: values[k][0] for k in values}\<close>: IndexError on an empty value list.\<close>

fun attr_defaults :: "(string \<times> pyval list) list \<Rightarrow> py_error + (string \<times> pyval) list" where
  "attr_defaults [] = Inr []"
| "attr_defaults ((k, vs) # rest) =
     (case vs of [] \<Rightarrow> Inl IndexError
      | v # _ \<Rightarrow> (case attr_defaults rest of Inl e \<Rightarrow> Inl e | Inr ds \<Rightarrow> Inr ((k, v) # ds)))"

text \<open>The value list of a key taken from the dict's own keys.\<close>

definition values_of :: "(string \<times> pyval list) list \<Rightarrow> string \<Rightarrow> pyval list" where
  "values_of d k = (case map_of d k of None \<Rightarrow> [] | Some vs \<Rightarrow> vs)"

definition len_of :: "(string \<times> pyval list) list \<Rightarrow> string \<Rightarrow> int" where
  "len_of d k = int (length (values_of d k))"

definition init_atom_attr_values :: "string list \<Rightarrow> (string \<times> pyval list) list" where
  "init_atom_attr_values atoms =
     [(''v'', map VStr atoms),
      (''chi'', [VChi CHI_UNSPECIFIED, VChi CHI_TETRAHEDRAL_CW, VChi CHI_TETRAHEDRAL_CCW]),
      (''charge'', [VInt 0, VInt 1, VInt (- 1)]),
      (''expl_H'', map (\<lambda>n. VInt (int n)) [0..<4]),
      (''no_impl'', [VBool False, VBool True])]"

definition init_bond_attr_values :: "(string \<times> pyval list) list" where
  "init_bond_attr_values = [(''type'', [VBond SINGLE, VBond DOUBLE, VBond TRIPLE, VBond AROMATIC])]"

definition init :: "string list \<Rightarrow> int \<Rightarrow> py_error + MolBuildingEnvContext" where
  "init atoms ncd =
     (let av = init_atom_attr_values atoms in
      bind_err (attr_defaults av) (\<lambda>ad.
      let asize = sum_list (map (\<lambda>(k, vs). int (length vs)) av);
          aattrs = sort (map fst av);
          aslice = 0 # cumsum (map (len_of av) aattrs);
          alslice = zip aattrs (0 # cumsum (map (\<lambda>i. len_of av i - 1) aattrs));
          almap = concat (map (\<lambda>k. map (Pair k) (tl (values_of av k)))
                            (filter (\<lambda>k. k \<noteq> ''v'') aattrs));
          bv = init_bond_attr_values in
      bind_err (attr_defaults bv) (\<lambda>bd.
      let bsize = sum_list (map (\<lambda>(k, vs). int (length vs)) bv);
          battrs = sort (map fst bv);
          bslice = 0 # cumsum (map (len_of bv) battrs);
          blslice = zip battrs (0 # cumsum (map (\<lambda>i. len_of bv i - 1) battrs));
          blmap = concat (map (\<lambda>k. map (Pair k) (tl (values_of bv k))) battrs) in
      Inr \<lparr>atom_attr_values = av, atom_attr_defaults = ad, atom_attr_size = asize,
           atom_attrs = aattrs, atom_attr_slice = aslice, atom_attr_logit_slice = alslice,
           atom_attr_logit_map = almap,
           bond_attr_values = bv, bond_attr_defaults = bd, bond_attr_size = bsize,
           bond_attrs = battrs, bond_attr_slice = bslice, bond_attr_logit_slice = blslice,
           bond_attr_logit_map = blmap,
           num_new_node_values = int (length atoms),
           num_node_attr_logits = int (length almap),
           num_node_dim = asize + 1,
           num_edge_attr_logits = int (length blmap),
           num_edge_dim = bsize,
           num_cond_dim = ncd,
           action_type_order = [Stop, AddNode, SetNodeAttr, AddEdge, SetEdgeAttr]\<rparr>)))"

section \<open>Action indices\<close>

text \<open>
  \<open>aidx_to_GraphAction\<close>: the chain of \<open>if ... elif\<close> on the action type has no final
  \<open>else\<close>; falling off its end returns \<open>None\<close>, which is the value \<open>Inr None\<close> here.
\<close>

definition aidx_to_GraphAction ::
  "MolBuildingEnvContext \<Rightarrow> Data \<Rightarrow> int \<times> int \<times> int \<Rightarrow> py_error + GraphAction option" where
  "aidx_to_GraphAction self g action_idx =
     (case action_idx of (act_type, act_row, act_col) \<Rightarrow>
      bind_err (py_get (action_type_order self) act_type) (\<lambda>t.
      if t = Stop then Inr (Some (mk_GraphAction t None None None None))
      else if t = AddNode then
        bind_err (dict_get (atom_attr_values self) (Some ''v'')) (\<lambda>vs.
        bind_err (py_get vs act_col) (\<lambda>v.
        Inr (Some (mk_GraphAction t (Some act_row) None None (Some v)))))
      else if t = SetNodeAttr then
        bind_err (py_get (atom_attr_logit_map self) act_col) (\<lambda>(a, v).
        Inr (Some (mk_GraphAction t (Some act_row) None (Some a) (Some v))))
      else if t = AddEdge then
        bind_err (py_get (non_edge_index g) act_row) (\<lambda>(a, b).
        Inr (Some (mk_GraphAction t (Some a) (Some b) None None)))
      else if t = SetEdgeAttr then
        bind_err (py_get (edge_index g) (act_row * 2)) (\<lambda>(a, b).
        bind_err (py_get (bond_attr_logit_map self) act_col) (\<lambda>(k, v).
        Inr (Some (mk_GraphAction t (Some a) (Some b) (Some k) (Some v)))))
      else Inr None))"

text \<open>
  \<open>(index.T == torch.tensor([(s, t)])).prod(1)\<close>: one entry per column of the index
  tensor, 1 where the column is the pair (s, t) and 0 elsewhere. Building the tensor from a
  pair with a \<open>None\<close> in it raises RuntimeError.
\<close>

definition pair_mask :: "(int \<times> int) list \<Rightarrow> int \<times> int \<Rightarrow> int list" where
  "pair_mask idx p =
     map (\<lambda>(a, b). (if a = fst p then 1 else 0) * (if b = snd p then 1 else 0)) idx"

definition pair_tensor :: "int option \<Rightarrow> int option \<Rightarrow> py_error + (int \<times> int)" where
  "pair_tensor s t =
     (case s of None \<Rightarrow> Inl RuntimeError
      | Some a \<Rightarrow> (case t of None \<Rightarrow> Inl RuntimeError | Some b \<Rightarrow> Inr (a, b)))"

text \<open>\<open>int(row)\<close> at the return: TypeError on \<open>None\<close>.\<close>

definition to_int :: "int option \<Rightarrow> py_error + int" where
  "to_int r = (case r of None \<Rightarrow> Inl TypeError | Some i \<Rightarrow> Inr i)"

text \<open>
  The column of SetNodeAttr and SetEdgeAttr:
  \<open>values[attr].index(value) - 1 + logit_slice[attr]\<close>.
\<close>

definition attr_col ::
  "(string \<times> pyval list) list \<Rightarrow> (string \<times> int) list \<Rightarrow> string option \<Rightarrow> pyval option
     \<Rightarrow> py_error + int" where
  "attr_col vals lslice a v =
     bind_err (dict_get vals a) (\<lambda>vs.
     bind_err (list_index (map Some vs) v) (\<lambda>i.
     bind_err (dict_get lslice a) (\<lambda>s. Inr (i - 1 + s))))"

text \<open>
  \<open>GraphAction_to_aidx\<close>: here too the chain of tests has no final \<open>else\<close>; after it
  \<open>row\<close> and \<open>col\<close> would be unbound. \<open>row\<close> stays as the source gives it (possibly
  \<open>None\<close>) until \<open>int(row)\<close> at the return.
\<close>

definition GraphAction_to_aidx ::
  "MolBuildingEnvContext \<Rightarrow> Data \<Rightarrow> GraphAction \<Rightarrow> py_error + (int \<times> int \<times> int)" where
  "GraphAction_to_aidx self g a =
     bind_err
       (if action a = Stop then Inr (Some 0, 0)
        else if action a = AddNode then
          bind_err (dict_get (atom_attr_values self) (Some ''v'')) (\<lambda>vs.
          bind_err (list_index (map Some vs) (value' a)) (\<lambda>col. Inr (source a, col)))
        else if action a = SetNodeAttr then
          bind_err (attr_col (atom_attr_values self) (atom_attr_logit_slice self) (attr a) (value' a))
            (\<lambda>col. Inr (source a, col))
        else if action a = AddEdge then
          bind_err (pair_tensor (source a) (target a)) (\<lambda>st.
          bind_err (pair_tensor (target a) (source a)) (\<lambda>ts.
          bind_err (argmax (map2 (+) (pair_mask (non_edge_index g) st)
                                       (pair_mask (non_edge_index g) ts)))
            (\<lambda>row. Inr (Some row, 0))))
        else if action a = SetEdgeAttr then
          bind_err (pair_tensor (source a) (target a)) (\<lambda>st.
          bind_err (argmax (pair_mask (edge_index g) st)) (\<lambda>row.
          bind_err (attr_col (bond_attr_values self) (bond_attr_logit_slice self) (attr a) (value' a))
            (\<lambda>col. Inr (Some (row div 2), col))))
        else Inl UnboundLocalError)
       (\<lambda>(row, col).
          bind_err (list_index (action_type_order self) (action a)) (\<lambda>type_idx.
          bind_err (to_int row) (\<lambda>r. Inr (type_idx, r, col))))"

section \<open>Graphs\<close>

text \<open>
  Modelled from the spec: \<open>Graph\<close> is declared in graph_building_env.py as a networkx graph,
  an attributed undirected graph whose nodes and edges carry optional attributes. The model
  keeps networkx's two dicts in insertion order: \<open>node\<close> maps a node to its attributes,
  \<open>adj\<close> maps a node to its neighbours and the attributes of the edge to each.
\<close>

type_synonym attrs = "(string \<times> pyval) list"

record Graph =
  node :: "(int \<times> attrs) list"
  adj :: "(int \<times> (int \<times> attrs) list) list"

definition empty_Graph :: Graph where
  "empty_Graph = \<lparr>node = [], adj = []\<rparr>"

text \<open>\<open>d[k] = v\<close>: an existing key keeps its place, a new key goes last.\<close>

fun dict_set :: "('k \<times> 'v) list \<Rightarrow> 'k \<Rightarrow> 'v \<Rightarrow> ('k \<times> 'v) list" where
  "dict_set [] k v = [(k, v)]"
| "dict_set ((k', v') # d) k v = (if k' = k then (k, v) # d else (k', v') # dict_set d k v)"

definition dict_update :: "('k \<times> 'v) list \<Rightarrow> ('k \<times> 'v) list \<Rightarrow> ('k \<times> 'v) list" where
  "dict_update d kw = fold (\<lambda>(k, v) d'. dict_set d' k v) kw d"

definition dict_get_or :: "('k \<times> 'v) list \<Rightarrow> 'k \<Rightarrow> 'v \<Rightarrow> 'v" where
  "dict_get_or d k dflt = (case map_of d k of None \<Rightarrow> dflt | Some v \<Rightarrow> v)"

definition add_node :: "Graph \<Rightarrow> int \<Rightarrow> attrs \<Rightarrow> Graph" where
  "add_node g n kw =
     (if n \<notin> set (map fst (node g))
      then g\<lparr>adj := dict_set (adj g) n [], node := dict_set (node g) n (dict_update [] kw)\<rparr>
      else g\<lparr>node := dict_set (node g) n (dict_update (dict_get_or (node g) n []) kw)\<rparr>)"

definition add_edge :: "Graph \<Rightarrow> int \<Rightarrow> int \<Rightarrow> attrs \<Rightarrow> Graph" where
  "add_edge g u v kw =
     (let g1 = (if u \<notin> set (map fst (node g))
                then g\<lparr>adj := dict_set (adj g) u [], node := dict_set (node g) u []\<rparr> else g);
          g2 = (if v \<notin> set (map fst (node g1))
                then g1\<lparr>adj := dict_set (adj g1) v [], node := dict_set (node g1) v []\<rparr> else g1);
          datadict = dict_update (dict_get_or (dict_get_or (adj g2) u []) v []) kw;
          a1 = dict_set (adj g2) u (dict_set (dict_get_or (adj g2) u []) v datadict);
          a2 = dict_set a1 v (dict_set (dict_get_or a1 v []) u datadict)
      in g2\<lparr>adj := a2\<rparr>)"

text \<open>
  Iterating \<open>g.edges\<close>: the nodes in order, the neighbours of each in order, an edge
  reported from the first of its two nodes only.
\<close>

fun edges_from :: "(int \<times> (int \<times> attrs) list) list \<Rightarrow> int list \<Rightarrow> ((int \<times> int) \<times> attrs) list" where
  "edges_from [] seen = []"
| "edges_from ((n, nbrs) # rest) seen =
     map (\<lambda>(nbr, dd). ((n, nbr), dd)) (filter (\<lambda>(nbr, dd). nbr \<notin> set seen) nbrs)
     @ edges_from rest (n # seen)"

definition edges :: "Graph \<Rightarrow> ((int \<times> int) \<times> attrs) list" where
  "edges g = edges_from (adj g) []"

text \<open>
  \<open>networkx.complement\<close>: a new graph on the same nodes, with an edge between two
  different nodes exactly when the given graph has none.
\<close>

definition complement :: "Graph \<Rightarrow> Graph" where
  "complement G =
     fold (\<lambda>(n, n2) R. add_edge R n n2 [])
       (concat (map (\<lambda>(n, nbrs).
          map (Pair n) (filter (\<lambda>n2. n2 \<notin> set (map fst nbrs) \<and> n \<noteq> n2) (map fst (node G))))
          (adj G)))
       (fold (\<lambda>n R. add_node R n []) (map fst (node G)) empty_Graph)"

section \<open>From a graph to tensors\<close>

text \<open>\<open>torch.zeros((rows, cols))\<close>: a negative size raises RuntimeError.\<close>

definition zeros :: "int \<Rightarrow> int \<Rightarrow> py_error + int list list" where
  "zeros rows cols =
     (if rows < 0 \<or> cols < 0 then Inl RuntimeError
      else Inr (replicate (nat rows) (replicate (nat cols) 0)))"

text \<open>\<open>m[i, j] = v\<close> on a matrix, with the index rules of \<open>py_get\<close>.\<close>

definition norm_index :: "nat \<Rightarrow> int \<Rightarrow> py_error + nat" where
  "norm_index n i =
     (if 0 \<le> i \<and> i < int n then Inr (nat i)
      else if i < 0 \<and> - int n \<le> i then Inr (nat (int n + i))
      else Inl IndexError)"

definition tensor_set :: "int list list \<Rightarrow> int \<Rightarrow> int \<Rightarrow> int \<Rightarrow> py_error + int list list" where
  "tensor_set m i j v =
     bind_err (norm_index (length m) i) (\<lambda>r.
     bind_err (norm_index (length (m ! r)) j) (\<lambda>c.
     Inr (m[r := (m ! r)[c := v]])))"

text \<open>\<open>values[k].index(ad[k]) if k in ad else 0\<close>\<close>

definition attr_idx :: "(string \<times> pyval list) list \<Rightarrow> attrs \<Rightarrow> string \<Rightarrow> py_error + int" where
  "attr_idx vals ad k =
     (case map_of ad k of None \<Rightarrow> Inr 0
      | Some v \<Rightarrow> bind_err (dict_get vals (Some k)) (\<lambda>vs. list_index vs v))"

text \<open>
  The inner loop over \<open>zip(attrs, slice)\<close>: it sets the entry \<open>sl + idx\<close> in each of the
  given rows (one row for a node, the two rows \<open>2 * i\<close> and \<open>2 * i + 1\<close> for an edge).
\<close>

fun set_rows :: "int list list \<Rightarrow> int list \<Rightarrow> int \<Rightarrow> py_error + int list list" where
  "set_rows m [] j = Inr m"
| "set_rows m (r # rs) j = bind_err (tensor_set m r j 1) (\<lambda>m'. set_rows m' rs j)"

fun set_attrs ::
  "(string \<times> pyval list) list \<Rightarrow> attrs \<Rightarrow> int list \<Rightarrow> (string \<times> int) list \<Rightarrow> int list list
     \<Rightarrow> py_error + int list list" where
  "set_attrs vals ad rows [] m = Inr m"
| "set_attrs vals ad rows ((k, sl) # rest) m =
     bind_err (attr_idx vals ad k) (\<lambda>idx.
     bind_err (set_rows m rows (sl + idx)) (\<lambda>m'.
     set_attrs vals ad rows rest m'))"

fun node_loop ::
  "MolBuildingEnvContext \<Rightarrow> (int \<times> attrs) list \<Rightarrow> int \<Rightarrow> int list list \<Rightarrow> py_error + int list list" where
  "node_loop self [] i m = Inr m"
| "node_loop self ((n, ad) # rest) i m =
     bind_err (set_attrs (atom_attr_values self) ad [i]
                 (zip (atom_attrs self) (atom_attr_slice self)) m) (\<lambda>m'.
     node_loop self rest (i + 1) m')"

fun edge_loop ::
  "MolBuildingEnvContext \<Rightarrow> ((int \<times> int) \<times> attrs) list \<Rightarrow> int \<Rightarrow> int list list
     \<Rightarrow> py_error + int list list" where
  "edge_loop self [] i m = Inr m"
| "edge_loop self ((e, ad) # rest) i m =
     bind_err (set_attrs (bond_attr_values self) ad [i * 2, i * 2 + 1]
                 (zip (bond_attrs self) (bond_attr_slice self)) m) (\<lambda>m'.
     edge_loop self rest (i + 1) m')"

definition graph_to_Data :: "MolBuildingEnvContext \<Rightarrow> Graph \<Rightarrow> py_error + Data" where
  "graph_to_Data self g =
     bind_err (zeros (max 1 (int (length (node g)))) (num_node_dim self)) (\<lambda>x0.
     bind_err (tensor_set x0 0 (- 1) (if length (node g) = 0 then 1 else 0)) (\<lambda>x1.
     bind_err (node_loop self (node g) 0 x1) (\<lambda>x2.
     bind_err (zeros (int (length (edges g)) * 2) (num_edge_dim self)) (\<lambda>ea0.
     bind_err (edge_loop self (edges g) 0 ea0) (\<lambda>ea.
     Inr \<lparr>x = x2,
          edge_index = concat (map (\<lambda>((i, j), ad). [(i, j), (j, i)]) (edges g)),
          edge_attr = ea,
          non_edge_index = map fst (edges (complement g))\<rparr>)))))"

section \<open>Molecules\<close>

text \<open>
  The part of an RDKit molecule the context reads and writes, each field named after its
  accessor: per atom its symbol, chirality tag, formal charge, number of explicit hydrogens
  and no-implicit flag (\<open>GetIdx\<close> of an atom is its position), per bond its two atom
  indices and its type.
\<close>

record Atom =
  GetSymbol :: string
  GetChiralTag :: ChiralType
  GetFormalCharge :: int
  GetNumExplicitHs :: int
  GetNoImplicit :: bool

record Bond =
  GetBeginAtomIdx :: int
  GetEndAtomIdx :: int
  GetBondType :: BondType

record Mol =
  GetAtoms :: "Atom list"
  GetBonds :: "Bond list"

text \<open>
  \<open>{attr: val for attr, val in attrs.items() if val != defaults[attr]}\<close>: the lookup
  of the default raises KeyError for an attribute the context does not know.
\<close>

fun non_default :: "(string \<times> pyval) list \<Rightarrow> attrs \<Rightarrow> py_error + attrs" where
  "non_default dflt [] = Inr []"
| "non_default dflt ((a, v) # rest) =
     bind_err (dict_get dflt (Some a)) (\<lambda>d.
     bind_err (non_default dflt rest) (\<lambda>r.
     Inr (if v \<noteq> d then (a, v) # r else r)))"

fun add_atoms :: "MolBuildingEnvContext \<Rightarrow> Atom list \<Rightarrow> int \<Rightarrow> Graph \<Rightarrow> py_error + Graph" where
  "add_atoms self [] i g = Inr g"
| "add_atoms self (a # rest) i g =
     bind_err (non_default (atom_attr_defaults self)
                 [(''chi'', VChi (GetChiralTag a)), (''charge'', VInt (GetFormalCharge a)),
                  (''expl_H'', VInt (GetNumExplicitHs a)), (''no_impl'', VBool (GetNoImplicit a))])
       (\<lambda>kw. add_atoms self rest (i + 1) (add_node g i ((''v'', VStr (GetSymbol a)) # kw)))"

fun add_bonds :: "MolBuildingEnvContext \<Rightarrow> Bond list \<Rightarrow> Graph \<Rightarrow> py_error + Graph" where
  "add_bonds self [] g = Inr g"
| "add_bonds self (b # rest) g =
     bind_err (non_default (bond_attr_defaults self) [(''type'', VBond (GetBondType b))])
       (\<lambda>kw. add_bonds self rest (add_edge g (GetBeginAtomIdx b) (GetEndAtomIdx b) kw))"

definition mol_to_graph :: "MolBuildingEnvContext \<Rightarrow> Mol \<Rightarrow> py_error + Graph" where
  "mol_to_graph self mol =
     bind_err (add_atoms self (GetAtoms mol) 0 empty_Graph) (\<lambda>g. add_bonds self (GetBonds mol) g)"

text \<open>
  What \<open>graph_to_mol\<close> and \<open>is_sane\<close> call in RDKit and this development does not
  define is a parameter: which symbols \<open>Chem.Atom\<close> accepts, \<open>SanitizeMol\<close>,
  \<open>MolToSmiles\<close> and \<open>MolFromSmiles\<close> (which returns \<open>None\<close> for a string it cannot
  parse).
\<close>

record rdkit =
  is_element :: "string \<Rightarrow> bool"
  SanitizeMol :: "Mol \<Rightarrow> py_error + Mol"
  MolToSmiles :: "Mol \<Rightarrow> py_error + string"
  MolFromSmiles :: "string \<Rightarrow> Mol option"

text \<open>
  \<open>Chem.Atom(d["v"])\<close> followed by the four conditional setters. A new atom has the
  tag CHI_UNSPECIFIED, charge 0, no explicit hydrogen and the no-implicit flag off. The
  integer setters take a Python bool as 0 or 1 and the flag setter takes an integer as its
  truth value; a setter called with a value of any other type raises TypeError.
\<close>

definition new_Atom :: "rdkit \<Rightarrow> pyval \<Rightarrow> py_error + Atom" where
  "new_Atom rd v =
     (case v of
        VStr s \<Rightarrow>
          if is_element rd s
          then Inr \<lparr>GetSymbol = s, GetChiralTag = CHI_UNSPECIFIED, GetFormalCharge = 0,
                    GetNumExplicitHs = 0, GetNoImplicit = False\<rparr>
          else Inl RuntimeError
      | _ \<Rightarrow> Inl TypeError)"

definition set_chi :: "attrs \<Rightarrow> Atom \<Rightarrow> py_error + Atom" where
  "set_chi d a =
     (case map_of d ''chi'' of None \<Rightarrow> Inr a
      | Some (VChi c) \<Rightarrow> Inr (a\<lparr>GetChiralTag := c\<rparr>)
      | Some _ \<Rightarrow> Inl TypeError)"

definition set_charge :: "attrs \<Rightarrow> Atom \<Rightarrow> py_error + Atom" where
  "set_charge d a =
     (case map_of d ''charge'' of None \<Rightarrow> Inr a
      | Some (VInt c) \<Rightarrow> Inr (a\<lparr>GetFormalCharge := c\<rparr>)
      | Some (VBool b) \<Rightarrow> Inr (a\<lparr>GetFormalCharge := (if b then 1 else 0)\<rparr>)
      | Some _ \<Rightarrow> Inl TypeError)"

definition set_expl_H :: "attrs \<Rightarrow> Atom \<Rightarrow> py_error + Atom" where
  "set_expl_H d a =
     (case map_of d ''expl_H'' of None \<Rightarrow> Inr a
      | Some (VInt c) \<Rightarrow> Inr (a\<lparr>GetNumExplicitHs := c\<rparr>)
      | Some (VBool b) \<Rightarrow> Inr (a\<lparr>GetNumExplicitHs := (if b then 1 else 0)\<rparr>)
      | Some _ \<Rightarrow> Inl TypeError)"

definition set_no_impl :: "attrs \<Rightarrow> Atom \<Rightarrow> py_error + Atom" where
  "set_no_impl d a =
     (case map_of d ''no_impl'' of None \<Rightarrow> Inr a
      | Some (VBool c) \<Rightarrow> Inr (a\<lparr>GetNoImplicit := c\<rparr>)
      | Some (VInt c) \<Rightarrow> Inr (a\<lparr>GetNoImplicit := (c \<noteq> 0)\<rparr>)
      | Some _ \<Rightarrow> Inl TypeError)"

text \<open>The loop \<open>for i in range(len(g.nodes))\<close>, counting \<open>i\<close> up from \<open>n - todo\<close>.\<close>

fun atom_loop :: "rdkit \<Rightarrow> Graph \<Rightarrow> nat \<Rightarrow> nat \<Rightarrow> Atom list \<Rightarrow> py_error + Atom list" where
  "atom_loop rd g n 0 acc = Inr acc"
| "atom_loop rd g n (Suc todo) acc =
     bind_err (dict_get (node g) (Some (int (n - Suc todo)))) (\<lambda>d.
     bind_err (dict_get d (Some ''v'')) (\<lambda>v.
     bind_err (new_Atom rd v) (\<lambda>a0.
     bind_err (set_chi d a0) (\<lambda>a1.
     bind_err (set_charge d a1) (\<lambda>a2.
     bind_err (set_expl_H d a2) (\<lambda>a3.
     bind_err (set_no_impl d a3) (\<lambda>a4.
     atom_loop rd g n todo (acc @ [a4]))))))))"

text \<open>
  \<open>mp.AddBond(e[0], e[1], d.get("type", BondType.SINGLE))\<close>: RDKit refuses an atom index
  out of range, a bond from an atom to itself and a second bond between two atoms.
\<close>

definition AddBond :: "nat \<Rightarrow> Bond list \<Rightarrow> int \<Rightarrow> int \<Rightarrow> pyval \<Rightarrow> py_error + Bond list" where
  "AddBond n bs u v t =
     (case t of
        VBond bt \<Rightarrow>
          if u < 0 \<or> int n \<le> u \<or> v < 0 \<or> int n \<le> v \<or> u = v
             \<or> (u, v) \<in> set (map (\<lambda>b. (GetBeginAtomIdx b, GetEndAtomIdx b)) bs)
             \<or> (v, u) \<in> set (map (\<lambda>b. (GetBeginAtomIdx b, GetEndAtomIdx b)) bs)
          then Inl RuntimeError
          else Inr (bs @ [\<lparr>GetBeginAtomIdx = u, GetEndAtomIdx = v, GetBondType = bt\<rparr>])
      | _ \<Rightarrow> Inl TypeError)"

fun bond_loop :: "nat \<Rightarrow> ((int \<times> int) \<times> attrs) list \<Rightarrow> Bond list \<Rightarrow> py_error + Bond list" where
  "bond_loop n [] acc = Inr acc"
| "bond_loop n (((u, v), d) # rest) acc =
     bind_err (AddBond n acc u v (dict_get_or d ''type'' (VBond SINGLE))) (\<lambda>acc'.
     bond_loop n rest acc')"

definition graph_to_mol :: "rdkit \<Rightarrow> Graph \<Rightarrow> py_error + Mol" where
  "graph_to_mol rd g =
     bind_err (atom_loop rd g (length (node g)) (length (node g)) []) (\<lambda>as.
     bind_err (bond_loop (length as) (edges g) []) (\<lambda>bs.
     SanitizeMol rd \<lparr>GetAtoms = as, GetBonds = bs\<rparr>))"

text \<open>
  \<open>is_sane\<close>: the \<open>try\<close> block is the first argument of the \<open>case\<close>, the
  \<open>except Exception\<close> clause its \<open>Inl\<close> branch. The molecule that \<open>graph_to_mol\<close>
  returns is the one it built, so the test \<open>mol is None\<close> after the block never holds.
\<close>

definition is_sane :: "rdkit \<Rightarrow> Graph \<Rightarrow> py_error + bool" where
  "is_sane rd g =
     (case bind_err (graph_to_mol rd g) (\<lambda>mol.
           bind_err (MolToSmiles rd mol) (\<lambda>smi.
           if MolFromSmiles rd smi \<noteq> None then Inr mol else Inl AssertionError))
      of Inl e \<Rightarrow> Inr False
       | Inr mol \<Rightarrow> Inr True)"

section \<open>Closed forms and example inputs\<close>

text \<open>
  The tables that \<open>init\<close> builds from a list of atoms, written out; \<open>init_nonempty\<close>
  below shows that \<open>init\<close> returns exactly this record for every list that is not empty.
\<close>

definition tables :: "string list \<Rightarrow> int \<Rightarrow> MolBuildingEnvContext" where
  "tables syms ncd =
    \<lparr>atom_attr_values = init_atom_attr_values syms,
     atom_attr_defaults = [(''v'', VStr (hd syms)), (''chi'', VChi CHI_UNSPECIFIED),
           (''charge'', VInt 0), (''expl_H'', VInt 0), (''no_impl'', VBool False)],
     atom_attr_size = 12 + int (length syms),
     atom_attrs = [''charge'', ''chi'', ''expl_H'', ''no_impl'', ''v''],
     atom_attr_slice = [0, 3, 6, 10, 12, 12 + int (length syms)],
     atom_attr_logit_slice =
       [(''charge'', 0), (''chi'', 2), (''expl_H'', 4), (''no_impl'', 7), (''v'', 8)],
     atom_attr_logit_map = [(''charge'', VInt 1), (''charge'', VInt (- 1)),
           (''chi'', VChi CHI_TETRAHEDRAL_CW), (''chi'', VChi CHI_TETRAHEDRAL_CCW),
           (''expl_H'', VInt 1), (''expl_H'', VInt 2), (''expl_H'', VInt 3),
           (''no_impl'', VBool True)],
     bond_attr_values = init_bond_attr_values,
     bond_attr_defaults = [(''type'', VBond SINGLE)], bond_attr_size = 4,
     bond_attrs = [''type''], bond_attr_slice = [0, 4],
     bond_attr_logit_slice = [(''type'', 0)],
     bond_attr_logit_map =
       [(''type'', VBond DOUBLE), (''type'', VBond TRIPLE), (''type'', VBond AROMATIC)],
     num_new_node_values = int (length syms), num_node_attr_logits = 8,
     num_node_dim = 13 + int (length syms), num_edge_attr_logits = 3, num_edge_dim = 4,
     num_cond_dim = ncd,
     action_type_order = [Stop, AddNode, SetNodeAttr, AddEdge, SetEdgeAttr]\<rparr>"

text \<open>The default vocabulary of the constructor, and a Data instance with empty tensors.\<close>

definition default_atoms :: "string list" where
  "default_atoms = [''H'', ''C'', ''N'', ''O'', ''F'']"

definition no_tensors :: Data where
  "no_tensors = \<lparr>x = [], edge_index = [], edge_attr = [], non_edge_index = []\<rparr>"

text \<open>
  The match mask of AddEdge, \<open>(idx.T == (s, t)).prod(1) + (idx.T == (t, s)).prod(1)\<close>,
  under a name.
\<close>

definition both_mask :: "(int \<times> int) list \<Rightarrow> int \<Rightarrow> int \<Rightarrow> int list" where
  "both_mask idx s t = map2 (+) (pair_mask idx (s, t)) (pair_mask idx (t, s))"



text \<open>
  Graphs of two carbon atoms: with a single bond between them; without a bond, the nodes
  added in the order 0, 1; without a bond, the nodes added in the order 1, 0.
\<close>

definition CC_bonded :: Graph where
  "CC_bonded =
     add_edge (add_node (add_node empty_Graph 0 [(''v'', VStr ''C'')]) 1 [(''v'', VStr ''C'')]) 0 1 []"

definition CC_unbonded :: Graph where
  "CC_unbonded = add_node (add_node empty_Graph 0 [(''v'', VStr ''C'')]) 1 [(''v'', VStr ''C'')]"

definition CC_reversed :: Graph where
  "CC_reversed = add_node (add_node empty_Graph 1 [(''v'', VStr ''C'')]) 0 [(''v'', VStr ''C'')]"

definition AddEdge_0_1 :: GraphAction where
  "AddEdge_0_1 = mk_GraphAction AddEdge (Some 0) (Some 1) None None"

definition AddEdge_1_0 :: GraphAction where
  "AddEdge_1_0 = mk_GraphAction AddEdge (Some 1) (Some 0) None None"

text \<open>A chain of three carbon atoms, the second bond double, and an action on that bond.\<close>

definition CCC_chain :: Graph where
  "CCC_chain =
     add_edge (add_edge (add_node (add_node (add_node empty_Graph 0 [(''v'', VStr ''C'')])
       1 [(''v'', VStr ''C'')]) 2 [(''v'', VStr ''C'')]) 0 1 []) 1 2 [(''type'', VBond DOUBLE)]"

definition SetEdgeAttr_2_1 :: GraphAction where
  "SetEdgeAttr_2_1 = mk_GraphAction SetEdgeAttr (Some 2) (Some 1) (Some ''type'') (Some (VBond TRIPLE))"

text \<open>The tensors of the three graphs of two carbon atoms, as \<open>graph_to_Data\<close> returns them.\<close>

definition data_bonded :: Data where
  "data_bonded =
     \<lparr>x = [[1, 0, 0, 1, 0, 0, 1, 0, 0, 0, 1, 0, 0, 1, 0, 0, 0, 0],
           [1, 0, 0, 1, 0, 0, 1, 0, 0, 0, 1, 0, 0, 1, 0, 0, 0, 0]],
      edge_index = [(0, 1), (1, 0)],
      edge_attr = [[1, 0, 0, 0], [1, 0, 0, 0]], non_edge_index = []\<rparr>"

definition data_unbonded :: Data where
  "data_unbonded =
     \<lparr>x = [[1, 0, 0, 1, 0, 0, 1, 0, 0, 0, 1, 0, 0, 1, 0, 0, 0, 0],
           [1, 0, 0, 1, 0, 0, 1, 0, 0, 0, 1, 0, 0, 1, 0, 0, 0, 0]],
      edge_index = [], edge_attr = [], non_edge_index = [(0, 1)]\<rparr>"

definition data_reversed :: Data where
  "data_reversed =
     \<lparr>x = [[1, 0, 0, 1, 0, 0, 1, 0, 0, 0, 1, 0, 0, 1, 0, 0, 0, 0],
           [1, 0, 0, 1, 0, 0, 1, 0, 0, 0, 1, 0, 0, 1, 0, 0, 0, 0]],
      edge_index = [], edge_attr = [], non_edge_index = [(1, 0)]\<rparr>"

text \<open>
  A stand-in for RDKit, for examples only: it knows the default elements, sanitizes nothing,
  writes every molecule as the string CC and parses that string alone.
\<close>

definition rdkit_stub :: rdkit where
  "rdkit_stub =
     \<lparr>is_element = (\<lambda>s. s \<in> set default_atoms),
      SanitizeMol = Inr,
      MolToSmiles = (\<lambda>m. Inr ''CC''),
      MolFromSmiles = (\<lambda>s. if s = ''CC'' then Some \<lparr>GetAtoms = [], GetBonds = []\<rparr> else None)\<rparr>"

text \<open>A graph whose one node is numbered 1, so that the lookup of node 0 fails.\<close>

definition graph_node_1 :: Graph where
  "graph_node_1 = add_node empty_Graph 1 [(''v'', VStr ''C'')]"

text \<open>
  The attributes of a node as the spec words them: the element always; chirality, charge,
  explicit hydrogens and the no-implicit flag only when they differ from the default.
\<close>

definition stored_attrs :: "Atom \<Rightarrow> attrs" where
  "stored_attrs a =
     [(''v'', VStr (GetSymbol a))]
     @ (if GetChiralTag a \<noteq> CHI_UNSPECIFIED then [(''chi'', VChi (GetChiralTag a))] else [])
     @ (if GetFormalCharge a \<noteq> 0 then [(''charge'', VInt (GetFormalCharge a))] else [])
     @ (if GetNumExplicitHs a \<noteq> 0 then [(''expl_H'', VInt (GetNumExplicitHs a))] else [])
     @ (if GetNoImplicit a \<noteq> False then [(''no_impl'', VBool (GetNoImplicit a))] else [])"

text \<open>Every attribute stored on a node, and on an edge, satisfies a given property.\<close>

definition node_all :: "(string \<times> pyval \<Rightarrow> bool) \<Rightarrow> (int \<times> attrs) list \<Rightarrow> bool" where
  "node_all P N = list_all (\<lambda>nd. list_all P (snd nd)) N"

definition adj_all :: "(string \<times> pyval \<Rightarrow> bool) \<Rightarrow> (int \<times> (int \<times> attrs) list) list \<Rightarrow> bool" where
  "adj_all Q A = list_all (\<lambda>un. node_all Q (snd un)) A"

text \<open>
  A molecule of three atoms: a carbon, a nitrogen of charge 1 with two explicit hydrogens,
  and a hydrogen; a double bond from the nitrogen to the carbon and a single bond from the
  nitrogen to the hydrogen.
\<close>

definition plain_atom :: "string \<Rightarrow> Atom" where
  "plain_atom s = \<lparr>GetSymbol = s, GetChiralTag = CHI_UNSPECIFIED, GetFormalCharge = 0,
                   GetNumExplicitHs = 0, GetNoImplicit = False\<rparr>"

definition mol_CNH :: Mol where
  "mol_CNH =
     \<lparr>GetAtoms = [plain_atom ''C'',
                  (plain_atom ''N'')\<lparr>GetFormalCharge := 1, GetNumExplicitHs := 2\<rparr>,
                  plain_atom ''H''],
      GetBonds = [\<lparr>GetBeginAtomIdx = 1, GetEndAtomIdx = 0, GetBondType = DOUBLE\<rparr>,
                  \<lparr>GetBeginAtomIdx = 1, GetEndAtomIdx = 2, GetBondType = SINGLE\<rparr>]\<rparr>"










section \<open>The constructor\<close>

lemma sorted_atom_keys:
  "sort [''v'', ''chi'', ''charge'', ''expl_H'', ''no_impl'']
     = [''charge'', ''chi'', ''expl_H'', ''no_impl'', ''v'']"
  by code_simp

lemma sorted_bond_keys: "sort [''type''] = [''type'']"
  by simp

lemma upt4: "[0..<4] = [0, 1, 2, 3]"
  by (simp add: upt_rec)

lemma init_empty: "init [] ncd = Inl IndexError"
  by (simp add: init_def init_atom_attr_values_def bind_err_def)

lemma init_nonempty: "syms \<noteq> [] \<Longrightarrow> init syms ncd = Inr (tables syms ncd)"
  apply (cases syms)
   apply simp
  apply (simp add: init_def Let_def init_atom_attr_values_def init_bond_attr_values_def bind_err_def
      tables_def sorted_atom_keys sorted_bond_keys upt4 cumsum_def len_of_def values_of_def
      del: sort_key_simps)
  done

lemma init_Inr: "init syms ncd = Inr self \<Longrightarrow> syms \<noteq> [] \<and> self = tables syms ncd"
  by (cases "syms = []") (simp_all add: init_empty init_nonempty)

lemma init_default: "init default_atoms 0 = Inr (tables default_atoms 0)"
  by (rule init_nonempty) (simp add: default_atoms_def)

lemma action_type_order_init:
  "init syms ncd = Inr self
   \<Longrightarrow> action_type_order self = [Stop, AddNode, SetNodeAttr, AddEdge, SetEdgeAttr]"
  by (auto dest!: init_Inr simp: tables_def)

section \<open>Decoding an action type that is not one of the five\<close>

lemma py_get_order:
  "py_get [Stop, AddNode, SetNodeAttr, AddEdge, SetEdgeAttr] t =
     (if t = 0 \<or> t = - 5 then Inr Stop
      else if t = 1 \<or> t = - 4 then Inr AddNode
      else if t = 2 \<or> t = - 3 then Inr SetNodeAttr
      else if t = 3 \<or> t = - 2 then Inr AddEdge
      else if t = 4 \<or> t = - 1 then Inr SetEdgeAttr
      else Inl IndexError)"
proof -
  consider "t < - 5" | "t = - 5" | "t = - 4" | "t = - 3" | "t = - 2" | "t = - 1"
    | "t = 0" | "t = 1" | "t = 2" | "t = 3" | "t = 4" | "4 < t"
    by atomize_elim arith
  then show ?thesis
    by cases (simp_all add: py_get_def)
qed

text \<open>
  C4, as the code has it. The action type is read with \<open>self.action_type_order[act_type]\<close>
  before the chain of tests: an ordinal from 5 up or below -5 raises IndexError there, an
  ordinal from -5 to -1 counts from the end of the list and decodes as one of the five
  variants, and the end of the chain, which would return \<open>None\<close>, is never reached.
\<close>

theorem aidx_unknown_type_raises:
  assumes "init syms ncd = Inr self"
  shows "(t < - 5 \<or> 5 \<le> t \<longrightarrow> aidx_to_GraphAction self g (t, r, c) = Inl IndexError)
       \<and> (- 5 \<le> t \<and> t < 0 \<longrightarrow>
            aidx_to_GraphAction self g (t, r, c) = aidx_to_GraphAction self g (t + 5, r, c))
       \<and> aidx_to_GraphAction self g (t, r, c) \<noteq> Inr None"
proof -
  have ord: "action_type_order self = [Stop, AddNode, SetNodeAttr, AddEdge, SetEdgeAttr]"
    using assms by (rule action_type_order_init)
  have a: "t < - 5 \<or> 5 \<le> t \<longrightarrow> aidx_to_GraphAction self g (t, r, c) = Inl IndexError"
    by (auto simp: aidx_to_GraphAction_def ord py_get_order bind_err_def)
  have b: "- 5 \<le> t \<and> t < 0 \<longrightarrow>
        aidx_to_GraphAction self g (t, r, c) = aidx_to_GraphAction self g (t + 5, r, c)"
    by (auto simp: aidx_to_GraphAction_def ord py_get_order)
  have c: "aidx_to_GraphAction self g (t, r, c) \<noteq> Inr None"
    by (auto simp: aidx_to_GraphAction_def ord py_get_order bind_err_def mk_GraphAction_def
        split: sum.splits prod.splits)
  from a b c show ?thesis by blast
qed

theorem aidx_unknown_type_raises_witness:
  "aidx_to_GraphAction (tables default_atoms 0) no_tensors (7, 0, 0) = Inl IndexError
   \<and> aidx_to_GraphAction (tables default_atoms 0) no_tensors (- 5, 0, 0)
       = aidx_to_GraphAction (tables default_atoms 0) no_tensors (0, 0, 0)
   \<and> aidx_to_GraphAction (tables default_atoms 0) no_tensors (0, 0, 0) \<noteq> Inr None"
  using aidx_unknown_type_raises [OF init_default, of 7 no_tensors 0 0]
    aidx_unknown_type_raises [OF init_default, of "- 5" no_tensors 0 0]
    aidx_unknown_type_raises [OF init_default, of 0 no_tensors 0 0]
  by simp

text \<open>
  The claim as the spec states it fails at the ordinal 5: with the default vocabulary the
  call raises IndexError and does not return \<open>None\<close>.
\<close>

theorem aidx_type_five_counterexample:
  "\<exists>self. init default_atoms 0 = Inr self
     \<and> aidx_to_GraphAction self no_tensors (5, 0, 0) = Inl IndexError
     \<and> aidx_to_GraphAction self no_tensors (5, 0, 0) \<noteq> Inr None"
proof -
  have "aidx_to_GraphAction (tables default_atoms 0) no_tensors (5, 0, 0) = Inl IndexError"
    by (simp add: aidx_to_GraphAction_def tables_def py_get_def bind_err_def)
  with init_default show ?thesis by auto
qed

section \<open>The first maximal entry and the match masks\<close>

lemma argmax_scan_le: "\<forall>v\<in>set xs. v \<le> bv \<Longrightarrow> argmax_scan xs i best bv = best"
  by (induction xs arbitrary: i) auto

lemma argmax_all_zero:
  assumes "xs \<noteq> []" "\<forall>v\<in>set xs. v = 0"
  shows "argmax xs = Inr 0"
proof (cases xs)
  case Nil
  with assms show ?thesis by simp
next
  case (Cons v rest)
  with assms have "v = 0" and "\<forall>w\<in>set rest. w \<le> 0" by auto
  then have "argmax_scan rest 1 0 v = 0" by (simp add: argmax_scan_le)
  with Cons show ?thesis by (simp add: argmax_def)
qed

lemma argmax_scan_first:
  "\<forall>v\<in>set xs. v = 0 \<or> v = c \<Longrightarrow> 0 < c \<Longrightarrow> c \<in> set xs
   \<Longrightarrow> list_index xs c = Inr (int (argmax_scan xs i best 0) - int i)"
proof (induction xs arbitrary: i best)
  case Nil
  then show ?case by simp
next
  case (Cons v xs)
  show ?case
  proof (cases "v = c")
    case True
    from Cons.prems have "\<forall>w\<in>set xs. w \<le> c" by auto
    then have "argmax_scan xs (Suc i) i c = i" by (rule argmax_scan_le)
    with True Cons.prems show ?thesis by simp
  next
    case False
    with Cons.prems have v0: "v = 0" and mem: "c \<in> set xs" by auto
    from Cons.IH [of "Suc i" best] Cons.prems mem
    have "list_index xs c = Inr (int (argmax_scan xs (Suc i) best 0) - int (Suc i))" by simp
    with False v0 show ?thesis by simp
  qed
qed

lemma argmax_first:
  assumes "\<forall>v\<in>set xs. v = 0 \<or> v = c" "0 < c" "c \<in> set xs"
  shows "argmax xs = list_index xs c"
proof (cases xs)
  case Nil
  with assms show ?thesis by simp
next
  case (Cons v rest)
  show ?thesis
  proof (cases "v = c")
    case True
    from Cons assms have "\<forall>w\<in>set rest. w \<le> c" by auto
    then have "argmax_scan rest 1 0 c = 0" by (rule argmax_scan_le)
    with True Cons show ?thesis by (simp add: argmax_def)
  next
    case False
    with Cons assms have v0: "v = 0" and mem: "c \<in> set rest" by auto
    from argmax_scan_first [of rest c 1 0] assms Cons mem
    have "list_index rest c = Inr (int (argmax_scan rest 1 0 0) - 1)" by simp
    with Cons False v0 show ?thesis by (simp add: argmax_def)
  qed
qed



lemma list_index_not_mem: "y \<notin> set xs \<Longrightarrow> list_index xs y = Inl ValueError"
  by (induction xs) auto

lemma pair_mask_values: "\<forall>v\<in>set (pair_mask idx p). v = 0 \<or> v = 1"
  by (auto simp: pair_mask_def)

lemma pair_mask_one: "1 \<in> set (pair_mask idx p) \<longleftrightarrow> p \<in> set idx"
  by (induction idx) (auto simp: pair_mask_def prod_eq_iff split: if_splits)

lemma list_index_pair_mask: "list_index (pair_mask idx p) 1 = list_index idx p"
  by (induction idx) (auto simp: pair_mask_def prod_eq_iff split: if_splits)

lemma argmax_pair_mask: "p \<in> set idx \<Longrightarrow> argmax (pair_mask idx p) = list_index idx p"
  using argmax_first [of "pair_mask idx p" 1] pair_mask_values [of idx p]
  by (simp add: pair_mask_one list_index_pair_mask)


lemma pair_mask_map: "pair_mask idx p = map (\<lambda>q. if q = p then 1 else 0) idx"
  by (induction idx) (auto simp: pair_mask_def prod_eq_iff)

lemma map2_map_map: "map2 h (map f xs) (map g xs) = map (\<lambda>v. h (f v) (g v)) xs"
  by (induction xs) simp_all

lemma both_mask_map:
  "both_mask idx s t
     = map (\<lambda>q. (if q = (s, t) then 1 else 0) + (if q = (t, s) then 1 else 0)) idx"
  by (simp only: both_mask_def pair_mask_map map2_map_map)



lemma both_mask_zero:
  assumes "(s, t) \<notin> set idx" "(t, s) \<notin> set idx"
  shows "\<forall>v\<in>set (both_mask idx s t). v = 0"
proof
  fix v assume "v \<in> set (both_mask idx s t)"
  then obtain q where q: "q \<in> set idx"
    and v: "v = (if q = (s, t) then 1 else 0) + (if q = (t, s) then 1 else 0)"
    unfolding both_mask_map by auto
  from q assms have "q \<noteq> (s, t)" "q \<noteq> (t, s)" by blast+
  with v show "v = 0" by simp
qed


section \<open>Encoding AddEdge\<close>

lemma order_index:
  "list_index [Stop, AddNode, SetNodeAttr, AddEdge, SetEdgeAttr] t =
     Inr (case t of Stop \<Rightarrow> 0 | AddNode \<Rightarrow> 1 | SetNodeAttr \<Rightarrow> 2 | AddEdge \<Rightarrow> 3 | SetEdgeAttr \<Rightarrow> 4)"
  by (cases t) simp_all

lemma GraphAction_to_aidx_AddEdge:
  assumes "init syms ncd = Inr self" "action a = AddEdge" "source a = Some s" "target a = Some t"
  shows "GraphAction_to_aidx self g a
           = bind_err (argmax (both_mask (non_edge_index g) s t)) (\<lambda>row. Inr (3, row, 0))"
proof -
  have ord: "list_index (action_type_order self) AddEdge = Inr 3"
    by (simp add: action_type_order_init [OF assms(1)])
  show ?thesis
    unfolding GraphAction_to_aidx_def both_mask_def
    apply (simp add: assms(2-4) pair_tensor_def ord)
    apply (cases "argmax (map2 (+) (pair_mask (non_edge_index g) (s, t)) (pair_mask (non_edge_index g) (t, s)))")
    apply (simp_all add: bind_err_def to_int_def ord)
    done
qed

text \<open>
  C10, as the code has it. For an AddEdge action whose pair is in the non-edge index in
  neither order the match mask is all zero. When the index has at least one column, argmax
  returns 0 and the result is (3, 0, 0), the index of the first candidate; when the index has
  no column, argmax has nothing to reduce and the call raises.
\<close>

theorem add_edge_absent_pair:
  assumes "init syms ncd = Inr self" "action a = AddEdge" "source a = Some s" "target a = Some t"
    and "(s, t) \<notin> set (non_edge_index g)" "(t, s) \<notin> set (non_edge_index g)"
  shows "(non_edge_index g \<noteq> [] \<longrightarrow> GraphAction_to_aidx self g a = Inr (3, 0, 0))
       \<and> (non_edge_index g = [] \<longrightarrow> (\<exists>e. GraphAction_to_aidx self g a = Inl e))"
proof (cases "non_edge_index g = []")
  case True
  then show ?thesis
    by (simp add: GraphAction_to_aidx_AddEdge [OF assms(1-4)] both_mask_def pair_mask_def
        argmax_def bind_err_def)
next
  case False
  then have "both_mask (non_edge_index g) s t \<noteq> []" by (simp add: both_mask_map)
  then have "argmax (both_mask (non_edge_index g) s t) = Inr 0"
    by (rule argmax_all_zero) (rule both_mask_zero [OF assms(5,6)])
  with False show ?thesis
    by (simp add: GraphAction_to_aidx_AddEdge [OF assms(1-4)] bind_err_def)
qed


lemma data_cc_bonded:
  "graph_to_Data (tables default_atoms 0) CC_bonded =
     Inr \<lparr>x = [[1, 0, 0, 1, 0, 0, 1, 0, 0, 0, 1, 0, 0, 1, 0, 0, 0, 0],
               [1, 0, 0, 1, 0, 0, 1, 0, 0, 0, 1, 0, 0, 1, 0, 0, 0, 0]],
          edge_index = [(0, 1), (1, 0)],
          edge_attr = [[1, 0, 0, 0], [1, 0, 0, 0]], non_edge_index = []\<rparr>"
  by code_simp

lemma data_cc_unbonded:
  "graph_to_Data (tables default_atoms 0) CC_unbonded =
     Inr \<lparr>x = [[1, 0, 0, 1, 0, 0, 1, 0, 0, 0, 1, 0, 0, 1, 0, 0, 0, 0],
               [1, 0, 0, 1, 0, 0, 1, 0, 0, 0, 1, 0, 0, 1, 0, 0, 0, 0]],
          edge_index = [], edge_attr = [], non_edge_index = [(0, 1)]\<rparr>"
  by code_simp

lemma data_cc_reversed:
  "graph_to_Data (tables default_atoms 0) CC_reversed =
     Inr \<lparr>x = [[1, 0, 0, 1, 0, 0, 1, 0, 0, 0, 1, 0, 0, 1, 0, 0, 0, 0],
               [1, 0, 0, 1, 0, 0, 1, 0, 0, 0, 1, 0, 0, 1, 0, 0, 0, 0]],
          edge_index = [], edge_attr = [], non_edge_index = [(1, 0)]\<rparr>"
  by code_simp

theorem add_edge_absent_pair_witness:
  "(\<exists>d. graph_to_Data (tables default_atoms 0) CC_unbonded = Inr d
      \<and> GraphAction_to_aidx (tables default_atoms 0) d
          (mk_GraphAction AddEdge (Some 0) (Some 2) None None) = Inr (3, 0, 0))
   \<and> (\<exists>d e. graph_to_Data (tables default_atoms 0) CC_bonded = Inr d
      \<and> GraphAction_to_aidx (tables default_atoms 0) d
          (mk_GraphAction AddEdge (Some 0) (Some 2) None None) = Inl e)"
  using add_edge_absent_pair [OF init_default, of "mk_GraphAction AddEdge (Some 0) (Some 2) None None" 0 2
      "\<lparr>x = [[1, 0, 0, 1, 0, 0, 1, 0, 0, 0, 1, 0, 0, 1, 0, 0, 0, 0],
               [1, 0, 0, 1, 0, 0, 1, 0, 0, 0, 1, 0, 0, 1, 0, 0, 0, 0]],
          edge_index = [], edge_attr = [], non_edge_index = [(0, 1)]\<rparr>"]
    add_edge_absent_pair [OF init_default, of "mk_GraphAction AddEdge (Some 0) (Some 2) None None" 0 2
      "\<lparr>x = [[1, 0, 0, 1, 0, 0, 1, 0, 0, 0, 1, 0, 0, 1, 0, 0, 0, 0],
               [1, 0, 0, 1, 0, 0, 1, 0, 0, 0, 1, 0, 0, 1, 0, 0, 0, 0]],
          edge_index = [(0, 1), (1, 0)],
          edge_attr = [[1, 0, 0, 0], [1, 0, 0, 0]], non_edge_index = []\<rparr>"]
  by (simp add: data_cc_unbonded data_cc_bonded mk_GraphAction_def)

text \<open>
  The claim as stated ("does not raise", for every graph tensor) fails on the tensors of the
  bonded two-carbon graph: its non-edge index is empty, the pair (0, 1) is absent from it, and
  the call raises.
\<close>

theorem add_edge_absent_pair_counterexample:
  "\<exists>self d. init default_atoms 0 = Inr self
     \<and> graph_to_Data self CC_bonded = Inr d
     \<and> (0, 1) \<notin> set (non_edge_index d) \<and> (1, 0) \<notin> set (non_edge_index d)
     \<and> (\<exists>e. GraphAction_to_aidx self d AddEdge_0_1 = Inl e)
     \<and> GraphAction_to_aidx self d AddEdge_0_1 \<noteq> Inr (3, 0, 0)"
proof -
  have "GraphAction_to_aidx (tables default_atoms 0)
          \<lparr>x = [[1, 0, 0, 1, 0, 0, 1, 0, 0, 0, 1, 0, 0, 1, 0, 0, 0, 0],
               [1, 0, 0, 1, 0, 0, 1, 0, 0, 0, 1, 0, 0, 1, 0, 0, 0, 0]],
          edge_index = [(0, 1), (1, 0)],
          edge_attr = [[1, 0, 0, 0], [1, 0, 0, 0]], non_edge_index = []\<rparr> AddEdge_0_1 = Inl IndexError"
    by (simp add: GraphAction_to_aidx_def AddEdge_0_1_def mk_GraphAction_def pair_tensor_def
        pair_mask_def argmax_def bind_err_def)
  with init_default data_cc_bonded show ?thesis by auto
qed

section \<open>Encoding and decoding SetEdgeAttr\<close>

lemma GraphAction_to_aidx_SetEdgeAttr:
  assumes "init syms ncd = Inr self" "action a = SetEdgeAttr" "source a = Some s" "target a = Some t"
    and "argmax (pair_mask (edge_index g) (s, t)) = Inr p"
    and "attr_col (bond_attr_values self) (bond_attr_logit_slice self) (attr a) (value' a) = Inr col"
  shows "GraphAction_to_aidx self g a = Inr (4, p div 2, col)"
proof -
  have ord: "list_index (action_type_order self) SetEdgeAttr = Inr 4"
    by (simp add: action_type_order_init [OF assms(1)])
  show ?thesis
    unfolding GraphAction_to_aidx_def
    by (simp add: assms(2-6) pair_tensor_def ord bind_err_def to_int_def)
qed

lemma bond_attr_col:
  assumes "init syms ncd = Inr self"
    and "list_index [VBond SINGLE, VBond DOUBLE, VBond TRIPLE, VBond AROMATIC] v = Inr i"
  shows "attr_col (bond_attr_values self) (bond_attr_logit_slice self) (Some ''type'') (Some v)
           = Inr (i - 1)"
proof -
  from init_Inr [OF assms(1)] have self: "self = tables syms ncd" by simp
  have "list_index (map Some [VBond SINGLE, VBond DOUBLE, VBond TRIPLE, VBond AROMATIC]) (Some v) = Inr i"
    using assms(2) by (simp split: if_splits)
  then show ?thesis
    by (simp add: self tables_def init_bond_attr_values_def attr_col_def dict_get_def bind_err_def)
qed

lemma aidx_to_GraphAction_SetEdgeAttr:
  assumes "init syms ncd = Inr self" "0 \<le> r" "2 * r < int (length (edge_index g))"
    and "py_get (bond_attr_logit_map self) c = Inr (k, v)"
  shows "aidx_to_GraphAction self g (4, r, c)
           = Inr (Some (mk_GraphAction SetEdgeAttr (Some (fst (edge_index g ! nat (2 * r))))
                          (Some (snd (edge_index g ! nat (2 * r)))) (Some k) (Some v)))"
proof -
  have ord: "py_get (action_type_order self) 4 = Inr SetEdgeAttr"
    by (simp add: action_type_order_init [OF assms(1)] py_get_order)
  have "py_get (edge_index g) (r * 2) = Inr (edge_index g ! nat (2 * r))"
    using assms(2,3) by (simp add: py_get_def mult.commute)
  then show ?thesis
    by (simp add: aidx_to_GraphAction_def ord assms(4) bind_err_def case_prod_beta)
qed

text \<open>
  C6. Encoding SetEdgeAttr takes the first position \<open>p\<close> of the pair (source, target) in
  the duplicated edge index and returns the row \<open>p div 2\<close>; its column is the position of
  the value in the list of bond types less one. Decoding a row \<open>r\<close> reads the edge index at
  column \<open>2 * r\<close>.
\<close>

theorem set_edge_attr_row:
  assumes "init syms ncd = Inr self"
  shows "(action a = SetEdgeAttr \<and> source a = Some s \<and> target a = Some t
            \<and> attr a = Some ''type'' \<and> value' a = Some w
            \<and> list_index (edge_index g) (s, t) = Inr p
            \<and> list_index [VBond SINGLE, VBond DOUBLE, VBond TRIPLE, VBond AROMATIC] w = Inr i
          \<longrightarrow> GraphAction_to_aidx self g a = Inr (4, p div 2, i - 1))
       \<and> (0 \<le> r \<and> 2 * r < int (length (edge_index g))
            \<and> py_get (bond_attr_logit_map self) c = Inr (k, v)
          \<longrightarrow> aidx_to_GraphAction self g (4, r, c)
                = Inr (Some (mk_GraphAction SetEdgeAttr (Some (fst (edge_index g ! nat (2 * r))))
                              (Some (snd (edge_index g ! nat (2 * r)))) (Some k) (Some v))))"
proof (intro conjI impI)
  assume h: "action a = SetEdgeAttr \<and> source a = Some s \<and> target a = Some t
            \<and> attr a = Some ''type'' \<and> value' a = Some w
            \<and> list_index (edge_index g) (s, t) = Inr p
            \<and> list_index [VBond SINGLE, VBond DOUBLE, VBond TRIPLE, VBond AROMATIC] w = Inr i"
  then have "(s, t) \<in> set (edge_index g)"
    using list_index_not_mem [of "(s, t)" "edge_index g"] by auto
  then have "argmax (pair_mask (edge_index g) (s, t)) = Inr p"
    using h by (simp add: argmax_pair_mask)
  moreover have "attr_col (bond_attr_values self) (bond_attr_logit_slice self) (attr a) (value' a)
      = Inr (i - 1)"
    using h bond_attr_col [OF assms, of w i] by simp
  ultimately show "GraphAction_to_aidx self g a = Inr (4, p div 2, i - 1)"
    using h GraphAction_to_aidx_SetEdgeAttr [OF assms, of a s t g p "i - 1"] by blast
next
  assume "0 \<le> r \<and> 2 * r < int (length (edge_index g))
            \<and> py_get (bond_attr_logit_map self) c = Inr (k, v)"
  then show "aidx_to_GraphAction self g (4, r, c)
                = Inr (Some (mk_GraphAction SetEdgeAttr (Some (fst (edge_index g ! nat (2 * r))))
                              (Some (snd (edge_index g ! nat (2 * r)))) (Some k) (Some v)))"
    using aidx_to_GraphAction_SetEdgeAttr [OF assms] by blast
qed

lemma data_ccc_chain:
  "graph_to_Data (tables default_atoms 0) CCC_chain =
     Inr \<lparr>x = [[1, 0, 0, 1, 0, 0, 1, 0, 0, 0, 1, 0, 0, 1, 0, 0, 0, 0],
               [1, 0, 0, 1, 0, 0, 1, 0, 0, 0, 1, 0, 0, 1, 0, 0, 0, 0],
               [1, 0, 0, 1, 0, 0, 1, 0, 0, 0, 1, 0, 0, 1, 0, 0, 0, 0]],
          edge_index = [(0, 1), (1, 0), (1, 2), (2, 1)],
          edge_attr = [[1, 0, 0, 0], [1, 0, 0, 0], [0, 1, 0, 0], [0, 1, 0, 0]],
          non_edge_index = [(0, 2)]\<rparr>"
  by code_simp

theorem set_edge_attr_row_witness:
  "\<exists>d. graph_to_Data (tables default_atoms 0) CCC_chain = Inr d
     \<and> list_index (edge_index d) (2, 1) = Inr 3
     \<and> GraphAction_to_aidx (tables default_atoms 0) d SetEdgeAttr_2_1 = Inr (4, 1, 1)
     \<and> aidx_to_GraphAction (tables default_atoms 0) d (4, 1, 1)
         = Inr (Some (mk_GraphAction SetEdgeAttr (Some 1) (Some 2) (Some ''type'') (Some (VBond TRIPLE))))"
proof -
  let ?self = "tables default_atoms 0"
  let ?d = "\<lparr>x = [[1, 0, 0, 1, 0, 0, 1, 0, 0, 0, 1, 0, 0, 1, 0, 0, 0, 0],
               [1, 0, 0, 1, 0, 0, 1, 0, 0, 0, 1, 0, 0, 1, 0, 0, 0, 0],
               [1, 0, 0, 1, 0, 0, 1, 0, 0, 0, 1, 0, 0, 1, 0, 0, 0, 0]],
          edge_index = [(0, 1), (1, 0), (1, 2), (2, 1)],
          edge_attr = [[1, 0, 0, 0], [1, 0, 0, 0], [0, 1, 0, 0], [0, 1, 0, 0]],
          non_edge_index = [(0, 2)]\<rparr>"
  have pos: "list_index (edge_index ?d) (2, 1) = Inr 3" by simp
  have h1: "action SetEdgeAttr_2_1 = SetEdgeAttr \<and> source SetEdgeAttr_2_1 = Some 2
      \<and> target SetEdgeAttr_2_1 = Some 1 \<and> attr SetEdgeAttr_2_1 = Some ''type''
      \<and> value' SetEdgeAttr_2_1 = Some (VBond TRIPLE)
      \<and> list_index (edge_index ?d) (2, 1) = Inr 3
      \<and> list_index [VBond SINGLE, VBond DOUBLE, VBond TRIPLE, VBond AROMATIC] (VBond TRIPLE) = Inr 2"
    by (simp add: SetEdgeAttr_2_1_def mk_GraphAction_def)
  have h2: "(0::int) \<le> 1 \<and> 2 * 1 < int (length (edge_index ?d))
      \<and> py_get (bond_attr_logit_map ?self) 1 = Inr (''type'', VBond TRIPLE)"
    by (simp add: tables_def py_get_def)
  from set_edge_attr_row [OF init_default, of SetEdgeAttr_2_1 2 1 "VBond TRIPLE" ?d 3 2 1 1
      "''type''" "VBond TRIPLE"] h1 h2
  have "GraphAction_to_aidx ?self ?d SetEdgeAttr_2_1 = Inr (4, 3 div 2, 2 - 1)"
    and "aidx_to_GraphAction ?self ?d (4, 1, 1)
       = Inr (Some (mk_GraphAction SetEdgeAttr (Some (fst (edge_index ?d ! nat (2 * 1))))
                     (Some (snd (edge_index ?d ! nat (2 * 1)))) (Some ''type'') (Some (VBond TRIPLE))))"
    by blast+
  with pos show ?thesis
    by (simp add: data_ccc_chain)
qed

section \<open>The round trip of an action through its index\<close>














lemma graph_to_Data_bonded: "graph_to_Data (tables default_atoms 0) CC_bonded = Inr data_bonded"
  by (simp add: data_cc_bonded data_bonded_def)

lemma graph_to_Data_unbonded: "graph_to_Data (tables default_atoms 0) CC_unbonded = Inr data_unbonded"
  by (simp add: data_cc_unbonded data_unbonded_def)

lemma graph_to_Data_reversed: "graph_to_Data (tables default_atoms 0) CC_reversed = Inr data_reversed"
  by (simp add: data_cc_reversed data_reversed_def)



lemma decode_unbonded:
  "aidx_to_GraphAction (tables default_atoms 0) data_unbonded (3, 0, 0) = Inr (Some AddEdge_0_1)"
  by code_simp

lemma encode_0_1_unbonded:
  "GraphAction_to_aidx (tables default_atoms 0) data_unbonded AddEdge_0_1 = Inr (3, 0, 0)"
  by code_simp

lemma encode_0_1_reversed:
  "GraphAction_to_aidx (tables default_atoms 0) data_reversed AddEdge_0_1 = Inr (3, 0, 0)"
  by code_simp

lemma decode_reversed:
  "aidx_to_GraphAction (tables default_atoms 0) data_reversed (3, 0, 0) = Inr (Some AddEdge_1_0)"
  by code_simp

lemma encode_0_1_bonded:
  "GraphAction_to_aidx (tables default_atoms 0) data_bonded AddEdge_0_1 = Inl IndexError"
  by code_simp

lemma AddEdge_0_1_neq: "AddEdge_0_1 \<noteq> AddEdge_1_0"
  by (simp add: AddEdge_0_1_def AddEdge_1_0_def mk_GraphAction_def)



section \<open>AddEdge between two carbon atoms\<close>

text \<open>
  C3, as the code has it, with the default vocabulary. On two carbon atoms without a bond
  the pair of atoms 0 and 1 is the one candidate; encoding AddEdge from 0 to 1 gives
  (3, 0, 0) whichever way the candidate is stored, and decoding returns the two atoms in the
  stored order: the original action when (0, 1) is stored, the action from 1 to 0 when
  (1, 0) is stored. On two carbon atoms with a single bond there is no candidate and the
  encoding raises (an IndexError, from argmax).
\<close>

theorem add_edge_two_carbons:
  "\<exists>self d1 d2 d3. init default_atoms 0 = Inr self
     \<and> graph_to_Data self CC_unbonded = Inr d1 \<and> non_edge_index d1 = [(0, 1)]
     \<and> GraphAction_to_aidx self d1 AddEdge_0_1 = Inr (3, 0, 0)
     \<and> aidx_to_GraphAction self d1 (3, 0, 0) = Inr (Some AddEdge_0_1)
     \<and> graph_to_Data self CC_reversed = Inr d2 \<and> non_edge_index d2 = [(1, 0)]
     \<and> GraphAction_to_aidx self d2 AddEdge_0_1 = Inr (3, 0, 0)
     \<and> aidx_to_GraphAction self d2 (3, 0, 0) = Inr (Some AddEdge_1_0)
     \<and> graph_to_Data self CC_bonded = Inr d3 \<and> non_edge_index d3 = []
     \<and> GraphAction_to_aidx self d3 AddEdge_0_1 = Inl IndexError"
proof -
  have "non_edge_index data_unbonded = [(0, 1)]" "non_edge_index data_reversed = [(1, 0)]"
    "non_edge_index data_bonded = []"
    by (simp_all add: data_unbonded_def data_reversed_def data_bonded_def)
  with init_default graph_to_Data_unbonded graph_to_Data_reversed graph_to_Data_bonded
    encode_0_1_unbonded decode_unbonded encode_0_1_reversed decode_reversed encode_0_1_bonded
  show ?thesis by blast
qed

text \<open>
  The scenario as the spec states it fails twice: with the single bond in place the encoding
  raises, and without it, when the candidate is stored as (1, 0), the decoded action differs
  from the original.
\<close>

theorem add_edge_two_carbons_counterexample:
  "\<exists>self d d'. init default_atoms 0 = Inr self
     \<and> graph_to_Data self CC_bonded = Inr d
     \<and> GraphAction_to_aidx self d AddEdge_0_1 = Inl IndexError
     \<and> graph_to_Data self CC_reversed = Inr d'
     \<and> GraphAction_to_aidx self d' AddEdge_0_1 = Inr (3, 0, 0)
     \<and> aidx_to_GraphAction self d' (3, 0, 0) = Inr (Some AddEdge_1_0)
     \<and> AddEdge_1_0 \<noteq> AddEdge_0_1"
  using init_default graph_to_Data_bonded encode_0_1_bonded graph_to_Data_reversed
    encode_0_1_reversed decode_reversed AddEdge_0_1_neq
  by metis

section \<open>The tensors of the empty graph\<close>

lemma replicate_last_set: "(replicate (Suc n) (0::int))[n := 1] = replicate n 0 @ [1]"
  by (induction n) simp_all

lemma complement_empty: "edges (complement empty_Graph) = []"
  by (simp add: complement_def empty_Graph_def edges_def)

text \<open>
  C8. For the context of any vocabulary, the node feature matrix of the empty graph has one
  row; the row is zero at every attribute position and 1 at its last position, the
  empty-graph indicator.
\<close>

theorem empty_graph_features:
  assumes "init syms ncd = Inr self"
  shows "\<exists>d. graph_to_Data self empty_Graph = Inr d
            \<and> x d = [replicate (nat (atom_attr_size self)) 0 @ [1]]
            \<and> atom_attr_size self = 12 + int (length syms)"
proof -
  from init_Inr [OF assms] have self: "self = tables syms ncd" by simp
  have dim: "nat (13 + int (length syms)) = Suc (12 + length syms)" by simp
  have "tensor_set [replicate (Suc (12 + length syms)) 0] 0 (- 1) 1
          = Inr [replicate (12 + length syms) 0 @ [1]]"
    using replicate_last_set [of "12 + length syms"]
    by (simp add: tensor_set_def norm_index_def bind_err_def nat_add_distrib)
  then show ?thesis
    by (simp add: self tables_def graph_to_Data_def zeros_def dim bind_err_def complement_empty
        empty_Graph_def edges_def nat_add_distrib)
qed

theorem empty_graph_features_witness:
  "\<exists>d. graph_to_Data (tables default_atoms 0) empty_Graph = Inr d
     \<and> x d = [[0, 0, 0, 0, 0, 0, 0, 0, 0, 0, 0, 0, 0, 0, 0, 0, 0, 1]]"
proof -
  have "atom_attr_size (tables default_atoms 0) = 17"
    by (simp add: tables_def default_atoms_def)
  moreover have "replicate 17 (0::int) = [0, 0, 0, 0, 0, 0, 0, 0, 0, 0, 0, 0, 0, 0, 0, 0, 0]"
    by code_simp
  ultimately show ?thesis
    using empty_graph_features [OF init_default] by auto
qed

section \<open>Sanity of a graph\<close>

text \<open>
  C9. \<open>is_sane\<close> always returns a boolean and never an exception, and the boolean is true
  exactly when \<open>graph_to_mol\<close> returns a molecule, \<open>MolToSmiles\<close> returns its string and
  \<open>MolFromSmiles\<close> of that string is not \<open>None\<close>; every exception raised on the way
  (by the reconstruction, by the sanitization inside it, by the string conversion or by the
  assertion) gives false. This holds for any behaviour of the RDKit functions.
\<close>

theorem is_sane_catches:
  "is_sane rd g =
     Inr (\<exists>mol smi. graph_to_mol rd g = Inr mol \<and> MolToSmiles rd mol = Inr smi
            \<and> MolFromSmiles rd smi \<noteq> None)"
proof (cases "graph_to_mol rd g")
  case (Inl e)
  then show ?thesis by (simp add: is_sane_def bind_err_def)
next
  case (Inr mol)
  show ?thesis
  proof (cases "MolToSmiles rd mol")
    case (Inl e)
    with Inr show ?thesis by (simp add: is_sane_def bind_err_def)
  next
    case smi: (Inr smi)
    with Inr show ?thesis by (simp add: is_sane_def bind_err_def)
  qed
qed

lemma graph_to_mol_node_1: "graph_to_mol rdkit_stub graph_node_1 = Inl KeyError"
  by code_simp

lemma graph_to_mol_bonded:
  "graph_to_mol rdkit_stub CC_bonded =
     Inr \<lparr>GetAtoms = [\<lparr>GetSymbol = ''C'', GetChiralTag = CHI_UNSPECIFIED, GetFormalCharge = 0,
                        GetNumExplicitHs = 0, GetNoImplicit = False\<rparr>,
                      \<lparr>GetSymbol = ''C'', GetChiralTag = CHI_UNSPECIFIED, GetFormalCharge = 0,
                        GetNumExplicitHs = 0, GetNoImplicit = False\<rparr>],
          GetBonds = [\<lparr>GetBeginAtomIdx = 0, GetEndAtomIdx = 1, GetBondType = SINGLE\<rparr>]\<rparr>"
  by code_simp

theorem is_sane_catches_witness:
  "is_sane rdkit_stub graph_node_1 = Inr False \<and> is_sane rdkit_stub CC_bonded = Inr True"
  using is_sane_catches [of rdkit_stub graph_node_1] is_sane_catches [of rdkit_stub CC_bonded]
  by (simp add: graph_to_mol_node_1 graph_to_mol_bonded) (simp add: rdkit_stub_def)

section \<open>What a graph built from a molecule stores\<close>

lemma dict_set_mem: "e \<in> set (dict_set d k v) \<Longrightarrow> e = (k, v) \<or> e \<in> set d"
  by (induction d) (auto split: if_splits)

lemma dict_set_fresh: "k \<notin> fst ` set d \<Longrightarrow> dict_set d k v = d @ [(k, v)]"
  by (induction d) auto

lemma map_of_dict_set: "map_of (dict_set d k v) k' = (if k' = k then Some v else map_of d k')"
  by (induction d) auto

lemma keys_dict_set: "fst ` set (dict_set d k v) = insert k (fst ` set d)"
proof (induction d)
  case Nil
  show ?case by simp
next
  case (Cons p d)
  obtain k' v' where p: "p = (k', v')" by (cases p)
  from Cons.IH show ?case
    by (cases "k' = k") (simp_all add: p insert_commute)
qed

lemma dict_update_mem: "e \<in> set (dict_update d kw) \<Longrightarrow> e \<in> set d \<or> e \<in> set kw"
  unfolding dict_update_def
proof (induction kw arbitrary: d)
  case Nil
  then show ?case by simp
next
  case (Cons p kw)
  obtain k v where p: "p = (k, v)" by (cases p)
  from Cons.prems have "e \<in> set (fold (\<lambda>(k, v) d'. dict_set d' k v) kw (dict_set d k v))"
    by (simp add: p)
  from Cons.IH [OF this] show ?case
    by (auto simp: p dest: dict_set_mem)
qed

lemma dict_update_fresh:
  "distinct (map fst kw) \<Longrightarrow> fst ` set d \<inter> fst ` set kw = {} \<Longrightarrow> dict_update d kw = d @ kw"
  unfolding dict_update_def
proof (induction kw arbitrary: d)
  case Nil
  then show ?case by simp
next
  case (Cons p kw)
  obtain k v where p: "p = (k, v)" by (cases p)
  from Cons.prems have fresh: "k \<notin> fst ` set d" by (auto simp: p)
  from Cons.prems have "distinct (map fst kw)"
    and "fst ` set (d @ [(k, v)]) \<inter> fst ` set kw = {}"
    by (auto simp: p)
  from Cons.IH [OF this] fresh show ?case
    by (simp add: p dict_set_fresh)
qed

lemma dict_get_or_mem: "dict_get_or d k dflt = dflt \<or> (k, dict_get_or d k dflt) \<in> set d"
  by (auto simp: dict_get_or_def dest: map_of_SomeD split: option.splits)

lemma node_all_dict_set:
  "node_all P N \<Longrightarrow> \<forall>kv\<in>set ad. P kv \<Longrightarrow> node_all P (dict_set N n ad)"
  unfolding node_all_def list_all_iff by (auto dest!: dict_set_mem)

lemma node_all_get: "node_all P N \<Longrightarrow> \<forall>kv\<in>set (dict_get_or N n []). P kv"
  using dict_get_or_mem [of N n "[]"] unfolding node_all_def list_all_iff by auto

lemma node_all_Nil: "node_all P []"
  by (simp add: node_all_def)

lemma adj_all_dict_set: "adj_all Q A \<Longrightarrow> node_all Q nbrs \<Longrightarrow> adj_all Q (dict_set A u nbrs)"
  unfolding adj_all_def list_all_iff by (auto dest!: dict_set_mem)

lemma adj_all_get: "adj_all Q A \<Longrightarrow> node_all Q (dict_get_or A u [])"
  using dict_get_or_mem [of A u "[]"] unfolding adj_all_def list_all_iff
  by (auto simp: node_all_Nil)

lemma adj_all_link:
  assumes "adj_all Q A" "\<forall>kv\<in>set dd. Q kv"
  shows "adj_all Q (dict_set A u (dict_set (dict_get_or A u []) v dd))"
  by (rule adj_all_dict_set [OF assms(1)])
    (rule node_all_dict_set [OF adj_all_get [OF assms(1)] assms(2)])

lemma add_node_node_all:
  assumes "node_all P (node g)" "\<forall>kv\<in>set kw. P kv"
  shows "node_all P (node (add_node g n kw))"
proof -
  have "\<forall>kv\<in>set (dict_update [] kw). P kv"
    using assms(2) by (auto dest: dict_update_mem)
  moreover have "\<forall>kv\<in>set (dict_update (dict_get_or (node g) n []) kw). P kv"
    using assms(2) node_all_get [OF assms(1), of n] by (auto dest: dict_update_mem)
  ultimately show ?thesis
    by (simp add: add_node_def node_all_dict_set [OF assms(1)])
qed

lemma add_node_adj_all: "adj_all Q (adj g) \<Longrightarrow> adj_all Q (adj (add_node g n kw))"
  by (simp add: add_node_def adj_all_dict_set node_all_Nil)

lemma add_edge_node_all: "node_all P (node g) \<Longrightarrow> node_all P (node (add_edge g u v kw))"
  by (simp add: add_edge_def Let_def node_all_dict_set)

lemma add_edge_adj_all:
  assumes "adj_all Q (adj g)" "\<forall>kv\<in>set kw. Q kv"
  shows "adj_all Q (adj (add_edge g u v kw))"
proof -
  define g1 where "g1 = (if u \<notin> set (map fst (node g))
      then g\<lparr>adj := dict_set (adj g) u [], node := dict_set (node g) u []\<rparr> else g)"
  define g2 where "g2 = (if v \<notin> set (map fst (node g1))
      then g1\<lparr>adj := dict_set (adj g1) v [], node := dict_set (node g1) v []\<rparr> else g1)"
  define dd where "dd = dict_update (dict_get_or (dict_get_or (adj g2) u []) v []) kw"
  define a1 where "a1 = dict_set (adj g2) u (dict_set (dict_get_or (adj g2) u []) v dd)"
  have g1: "adj_all Q (adj g1)"
    using assms(1) by (simp add: g1_def adj_all_dict_set node_all_Nil)
  then have g2: "adj_all Q (adj g2)"
    by (simp add: g2_def adj_all_dict_set node_all_Nil)
  have dd: "\<forall>kv\<in>set dd. Q kv"
    using node_all_get [OF adj_all_get [OF g2, of u], of v] assms(2)
    unfolding dd_def by (auto dest: dict_update_mem)
  have a1: "adj_all Q a1"
    unfolding a1_def by (rule adj_all_link [OF g2 dd])
  have "adj_all Q (dict_set a1 v (dict_set (dict_get_or a1 v []) u dd))"
    by (rule adj_all_link [OF a1 dd])
  then show ?thesis
    unfolding add_edge_def Let_def a1_def dd_def g2_def g1_def by simp
qed

lemma non_default_atom:
  assumes "init syms ncd = Inr self"
  shows "non_default (atom_attr_defaults self)
           [(''chi'', VChi (GetChiralTag a)), (''charge'', VInt (GetFormalCharge a)),
            (''expl_H'', VInt (GetNumExplicitHs a)), (''no_impl'', VBool (GetNoImplicit a))]
         = Inr (tl (stored_attrs a))"
proof -
  from init_Inr [OF assms] have self: "self = tables syms ncd" by simp
  show ?thesis
    by (simp add: self tables_def stored_attrs_def dict_get_def bind_err_def)
qed

lemma non_default_bond:
  assumes "init syms ncd = Inr self"
  shows "non_default (bond_attr_defaults self) [(''type'', VBond t)]
         = Inr (if t \<noteq> SINGLE then [(''type'', VBond t)] else [])"
proof -
  from init_Inr [OF assms] have self: "self = tables syms ncd" by simp
  show ?thesis
    by (simp add: self tables_def dict_get_def bind_err_def)
qed

lemma stored_attrs_Cons: "(''v'', VStr (GetSymbol a)) # tl (stored_attrs a) = stored_attrs a"
  by (simp add: stored_attrs_def)

lemma stored_attrs_distinct: "distinct (map fst (stored_attrs a))"
  by (simp add: stored_attrs_def)

lemma stored_attrs_non_default:
  assumes "init syms ncd = Inr self"
  shows "\<forall>kv\<in>set (stored_attrs a).
           fst kv = ''v'' \<or> map_of (atom_attr_defaults self) (fst kv) \<noteq> Some (snd kv)"
proof -
  from init_Inr [OF assms] have self: "self = tables syms ncd" by simp
  show ?thesis
    by (auto simp: self tables_def stored_attrs_def)
qed

lemma add_atoms_step:
  assumes "init syms ncd = Inr self"
  shows "add_atoms self (a # rest) i g = add_atoms self rest (i + 1) (add_node g i (stored_attrs a))"
  unfolding add_atoms.simps non_default_atom [OF assms] bind_err_def
  by (simp add: stored_attrs_Cons)

lemma add_bonds_step:
  assumes "init syms ncd = Inr self"
  shows "add_bonds self (b # rest) g
         = add_bonds self rest
             (add_edge g (GetBeginAtomIdx b) (GetEndAtomIdx b)
                (if GetBondType b \<noteq> SINGLE then [(''type'', VBond (GetBondType b))] else []))"
  unfolding add_bonds.simps non_default_bond [OF assms] bind_err_def
  by simp

lemma add_atoms_all:
  assumes "init syms ncd = Inr self"
    and "node_all (\<lambda>kv. fst kv = ''v'' \<or> map_of (atom_attr_defaults self) (fst kv) \<noteq> Some (snd kv)) (node g)"
    and "adj_all Q (adj g)"
  shows "\<exists>g'. add_atoms self as i g = Inr g'
           \<and> node_all (\<lambda>kv. fst kv = ''v'' \<or> map_of (atom_attr_defaults self) (fst kv) \<noteq> Some (snd kv)) (node g')
           \<and> adj_all Q (adj g')"
  using assms(2,3)
proof (induction as arbitrary: i g)
  case Nil
  then show ?case by simp
next
  case (Cons a rest)
  from add_node_node_all [OF Cons.prems(1) stored_attrs_non_default [OF assms(1)]]
    add_node_adj_all [OF Cons.prems(2)]
  show ?case
    unfolding add_atoms_step [OF assms(1)] by (rule Cons.IH)
qed

lemma add_bonds_all:
  assumes "init syms ncd = Inr self"
    and "node_all P (node g)"
    and "adj_all (\<lambda>kv. map_of (bond_attr_defaults self) (fst kv) \<noteq> Some (snd kv)) (adj g)"
  shows "\<exists>g'. add_bonds self bs g = Inr g'
           \<and> node_all P (node g')
           \<and> adj_all (\<lambda>kv. map_of (bond_attr_defaults self) (fst kv) \<noteq> Some (snd kv)) (adj g')"
  using assms(2,3)
proof (induction bs arbitrary: g)
  case Nil
  then show ?case by simp
next
  case (Cons b rest)
  from init_Inr [OF assms(1)] have self: "self = tables syms ncd" by simp
  have kw: "\<forall>kv\<in>set (if GetBondType b \<noteq> SINGLE then [(''type'', VBond (GetBondType b))] else []).
      map_of (bond_attr_defaults self) (fst kv) \<noteq> Some (snd kv)"
    by (simp add: self tables_def)
  from add_edge_node_all [OF Cons.prems(1)] add_edge_adj_all [OF Cons.prems(2) kw]
  show ?case
    unfolding add_bonds_step [OF assms(1)] by (rule Cons.IH)
qed

lemma add_node_fresh:
  assumes "i \<notin> fst ` set (node g)"
  shows "node (add_node g i (stored_attrs a)) = dict_set (node g) i (stored_attrs a)"
proof -
  have "dict_update [] (stored_attrs a) = stored_attrs a"
    using dict_update_fresh [OF stored_attrs_distinct, of "[]" a] by simp
  with assms show ?thesis by (simp add: add_node_def)
qed

lemma add_atoms_lookup:
  assumes "init syms ncd = Inr self"
    and "\<forall>k\<in>fst ` set (node g). k < i" "add_atoms self as i g = Inr g'"
  shows "(\<forall>j<length as. map_of (node g') (i + int j) = Some (stored_attrs (as ! j)))
       \<and> (\<forall>k<i. map_of (node g') k = map_of (node g) k)"
  using assms(2,3)
proof (induction as arbitrary: i g)
  case Nil
  then show ?case by simp
next
  case (Cons a rest)
  let ?g1 = "add_node g i (stored_attrs a)"
  from Cons.prems(1) have fresh: "i \<notin> fst ` set (node g)" by auto
  have node1: "node ?g1 = dict_set (node g) i (stored_attrs a)"
    by (rule add_node_fresh [OF fresh])
  have keys1: "\<forall>k\<in>fst ` set (node ?g1). k < i + 1"
    using Cons.prems(1) by (auto simp: node1 keys_dict_set)
  from Cons.prems(2) have "add_atoms self rest (i + 1) ?g1 = Inr g'"
    by (simp only: add_atoms_step [OF assms(1)])
  from Cons.IH [OF keys1 this]
  have later: "\<forall>j<length rest. map_of (node g') (i + 1 + int j) = Some (stored_attrs (rest ! j))"
    and earlier: "\<forall>k<i + 1. map_of (node g') k = map_of (node ?g1) k"
    by blast+
  have here: "map_of (node g') i = Some (stored_attrs a)"
    using earlier by (simp add: node1 map_of_dict_set)
  have "map_of (node g') (i + int j) = Some (stored_attrs ((a # rest) ! j))"
    if "j < length (a # rest)" for j
  proof (cases j)
    case 0
    with here show ?thesis by simp
  next
    case (Suc j')
    with that later have l: "map_of (node g') (i + 1 + int j') = Some (stored_attrs (rest ! j'))"
      by simp
    have eq: "i + int j = i + 1 + int j'" using Suc by simp
    have nth: "(a # rest) ! j = rest ! j'" using Suc by simp
    show ?thesis unfolding eq nth by (rule l)
  qed
  moreover have "map_of (node g') k = map_of (node g) k" if "k < i" for k
    using earlier that by (simp add: node1 map_of_dict_set)
  ultimately show ?case by blast
qed

lemma add_edge_lookup:
  assumes "map_of (node g) n = Some ad"
  shows "map_of (node (add_edge g u v kw)) n = Some ad"
proof -
  from map_of_SomeD [OF assms] have n: "n \<in> fst ` set (node g)"
    by (rule rev_image_eqI) simp
  show ?thesis
    using assms n
    by (auto simp: add_edge_def Let_def map_of_dict_set keys_dict_set)
qed

lemma add_bonds_lookup:
  assumes "init syms ncd = Inr self"
    and "map_of (node g) n = Some ad" "add_bonds self bs g = Inr g'"
  shows "map_of (node g') n = Some ad"
  using assms(2,3)
proof (induction bs arbitrary: g)
  case Nil
  then show ?case by simp
next
  case (Cons b rest)
  from Cons.prems(2) show ?case
    unfolding add_bonds_step [OF assms(1)]
    by (rule Cons.IH [OF add_edge_lookup [OF Cons.prems(1)]])
qed

text \<open>
  C7. For the context of any vocabulary and any molecule, \<open>mol_to_graph\<close> returns a graph;
  the node of each atom holds exactly the attributes the spec names (the element always, the
  other four only when they differ from their defaults); every attribute other than the
  element stored on any node differs from the declared default of that attribute, and so does
  every attribute stored on any edge.
\<close>

theorem mol_to_graph_omits_defaults:
  assumes "init syms ncd = Inr self"
  shows "\<exists>g. mol_to_graph self mol = Inr g
     \<and> (\<forall>i<length (GetAtoms mol).
          map_of (node g) (int i) = Some (stored_attrs (GetAtoms mol ! i)))
     \<and> node_all (\<lambda>kv. fst kv = ''v'' \<or> map_of (atom_attr_defaults self) (fst kv) \<noteq> Some (snd kv))
          (node g)
     \<and> adj_all (\<lambda>kv. map_of (bond_attr_defaults self) (fst kv) \<noteq> Some (snd kv)) (adj g)"
proof -
  let ?P = "\<lambda>kv. fst kv = ''v'' \<or> map_of (atom_attr_defaults self) (fst kv) \<noteq> Some (snd kv)"
  let ?Q = "\<lambda>kv. map_of (bond_attr_defaults self) (fst kv) \<noteq> Some (snd kv)"
  have "node_all ?P (node empty_Graph)" "adj_all ?Q (adj empty_Graph)"
    by (simp_all add: empty_Graph_def node_all_def adj_all_def)
  from add_atoms_all [OF assms this, of "GetAtoms mol" 0] obtain g1
    where g1: "add_atoms self (GetAtoms mol) 0 empty_Graph = Inr g1"
      and n1: "node_all ?P (node g1)" and a1: "adj_all ?Q (adj g1)" by blast
  from add_bonds_all [OF assms n1 a1, of "GetBonds mol"] obtain g
    where g: "add_bonds self (GetBonds mol) g1 = Inr g"
      and n: "node_all ?P (node g)" and a: "adj_all ?Q (adj g)" by blast
  have m: "mol_to_graph self mol = Inr g"
    by (simp add: mol_to_graph_def g1 g bind_err_def)
  have "\<forall>k\<in>fst ` set (node empty_Graph). k < 0"
    by (simp add: empty_Graph_def)
  from add_atoms_lookup [OF assms this g1]
  have "\<forall>j<length (GetAtoms mol). map_of (node g1) (int j) = Some (stored_attrs (GetAtoms mol ! j))"
    by simp
  then have "\<forall>j<length (GetAtoms mol). map_of (node g) (int j) = Some (stored_attrs (GetAtoms mol ! j))"
    using add_bonds_lookup [OF assms _ g] by blast
  with m n a show ?thesis by blast
qed

theorem mol_to_graph_omits_defaults_witness:
  "\<exists>g. mol_to_graph (tables default_atoms 0) mol_CNH = Inr g
     \<and> map_of (node g) 0 = Some [(''v'', VStr ''C'')]
     \<and> map_of (node g) 1 = Some [(''v'', VStr ''N''), (''charge'', VInt 1), (''expl_H'', VInt 2)]
     \<and> map_of (node g) 2 = Some [(''v'', VStr ''H'')]
     \<and> adj_all (\<lambda>kv. map_of (bond_attr_defaults (tables default_atoms 0)) (fst kv) \<noteq> Some (snd kv))
          (adj g)"
proof -
  from mol_to_graph_omits_defaults [OF init_default, of mol_CNH] obtain g
    where g: "mol_to_graph (tables default_atoms 0) mol_CNH = Inr g"
      and at: "\<forall>i<length (GetAtoms mol_CNH).
          map_of (node g) (int i) = Some (stored_attrs (GetAtoms mol_CNH ! i))"
      and ed: "adj_all (\<lambda>kv. map_of (bond_attr_defaults (tables default_atoms 0)) (fst kv) \<noteq> Some (snd kv))
          (adj g)"
    by blast
  have len: "length (GetAtoms mol_CNH) = 3" by (simp add: mol_CNH_def)
  from at [unfolded len, rule_format, of 0] at [unfolded len, rule_format, of 1]
    at [unfolded len, rule_format, of 2]
  have "map_of (node g) (int 0) = Some (stored_attrs (GetAtoms mol_CNH ! 0))"
    and "map_of (node g) (int 1) = Some (stored_attrs (GetAtoms mol_CNH ! 1))"
    and "map_of (node g) (int 2) = Some (stored_attrs (GetAtoms mol_CNH ! 2))"
    by simp_all
  then have "map_of (node g) 0 = Some [(''v'', VStr ''C'')]"
    and "map_of (node g) 1 = Some [(''v'', VStr ''N''), (''charge'', VInt 1), (''expl_H'', VInt 2)]"
    and "map_of (node g) 2 = Some [(''v'', VStr ''H'')]"
    by (simp_all add: mol_CNH_def plain_atom_def stored_attrs_def)
  with g ed show ?thesis by blast
qed

section \<open>The one-hot rows of the node features\<close>

















section \<open>Index 0 is the default: logits leave it out, input features keep it\<close>









section \<open>The one-hot rows of the edge features\<close>










section \<open>From a molecule to a graph and back\<close>
































section \<open>The round trip\<close>



end
